theory Spec2Isabelle
  imports Complex_Main
begin

section \<open>Data model of the task synchronisation hook (src/hooks/useTasks.ts)\<close>

text \<open>
  The hook \<^verbatim>\<open>useTasks\<close> owns four pieces of React state: the task list of the
  current page, a loading flag, a nullable error message and the pagination
  metadata. Its callbacks read the options of the current render (search term, sort
  order, completion filter, page, page size) and talk to the Supabase client.

  JavaScript numbers that hold row ids, counts, pages and page sizes are modelled as
  \<^typ>\<open>int\<close>. The quotient \<^verbatim>\<open>total / pageSize\<close> is taken for a page size other than
  zero (division by zero yields \<^verbatim>\<open>Infinity\<close> or \<^verbatim>\<open>NaN\<close> in JavaScript, which
  \<^typ>\<open>int\<close> does not have); every statement below about a page count assumes a
  positive page size. A string is a list of 8-bit code units: the strings of
  JavaScript whose UTF-16 code units all lie in the Latin-1 range (U+0000 to U+00FF).
  \<^verbatim>\<open>trim\<close> and \<^verbatim>\<open>toLowerCase\<close> are the JavaScript functions on that range.
\<close>

datatype SortOrder = Newest | Oldest

datatype CompletionFilter = FilterAll | FilterActive | FilterCompleted

text \<open>
  A row of the view \<^verbatim>\<open>tasks_with_user\<close>. The generated \<^verbatim>\<open>database.types\<close> file
  is not part of the repository; the columns are the attributes of Task and
  TaskWithUser, each nullable as the source treats them (\<^verbatim>\<open>task.id !== null\<close>,
  \<^verbatim>\<open>newTask.title?.toLowerCase()\<close>, \<^verbatim>\<open>isCompleted === true\<close>).
\<close>

record TaskWithUser =
  row_id :: "int option"
  title :: "string option"
  description :: "string option"
  isCompleted :: "bool option"
  created_at :: "string option"
  createdBy :: "string option"
  creator_first_name :: "string option"
  creator_last_name :: "string option"
  creator_email :: "string option"

text \<open>
  Modelled from the spec: the type \<^verbatim>\<open>TaskUpdate\<close> is \<^verbatim>\<open>Tables.tasks.Update\<close> of the
  generated \<^verbatim>\<open>database.types\<close>, which is missing. It is a partial row of Task (the
  \<open>partialTask\<close> of the Data Service's update): each of the attributes id, title,
  description, isCompleted, created_at and createdBy is a key that may be absent
  (\<open>None\<close>), or present with null (\<open>Some None\<close>) or with a value
  (\<open>Some (Some v)\<close>).
\<close>

record TaskUpdate =
  upd_id :: "int option option"
  upd_title :: "string option option"
  upd_description :: "string option option"
  upd_isCompleted :: "bool option option"
  upd_created_at :: "string option option"
  upd_createdBy :: "string option option"

record PaginationInfo =
  currentPage :: int
  totalPages :: int
  totalCount :: int
  pageSize :: int
  hasNextPage :: bool
  hasPrevPage :: bool

text \<open>The options of one render of the hook (\<^verbatim>\<open>UseTasksOptions\<close>, defaults applied).\<close>

record UseTasksOptions =
  searchTerm :: string
  sortOrder :: SortOrder
  completionFilter :: CompletionFilter
  page :: int
  optPageSize :: int

text \<open>The four \<^verbatim>\<open>useState\<close> cells.\<close>

record UseTasksState =
  tasks :: "TaskWithUser list"
  isLoading :: bool
  error :: "string option"
  pagination :: PaginationInfo

subsection \<open>Thrown values and the Data Service\<close>

text \<open>
  Every \<^verbatim>\<open>catch\<close> block computes \<^verbatim>\<open>err instanceof Error ? err.message : fallback\<close>.
  A caught value is therefore either an \<^verbatim>\<open>Error\<close> instance carrying a message, or
  something else.
\<close>

datatype thrown = ErrorInstance string | NonError

definition error_message :: "thrown \<Rightarrow> string \<Rightarrow> string" where
  "error_message err fallback = (case err of ErrorInstance m \<Rightarrow> m | NonError \<Rightarrow> fallback)"

text \<open>
  The filters both queries share: \<^verbatim>\<open>.eq("isCompleted", b)\<close> and the
  \<^verbatim>\<open>.or("title.ilike.%s%,description.ilike.%s%")\<close> clause.
\<close>

record QueryFilters =
  eq_isCompleted :: "bool option"
  or_ilike :: "string option"

record DataRequest =
  filters :: QueryFilters
  ascending :: bool
  range_from :: int
  range_to :: int

datatype request =
    CountQuery QueryFilters
  | DataQuery DataRequest
  | UpdateRow int TaskUpdate
  | DeleteRow int

text \<open>
  The Supabase client, as the answers it gives. A query answers with an error or with
  its (nullable) payload; a mutation answers with an error or with none; the
  single-row select of the notification handlers answers with the row or null.
\<close>

record DataService =
  count_query :: "QueryFilters \<Rightarrow> thrown + int option"
  data_query :: "DataRequest \<Rightarrow> thrown + TaskWithUser list option"
  update_row :: "int \<Rightarrow> TaskUpdate \<Rightarrow> thrown option"
  delete_row :: "int \<Rightarrow> thrown option"
  select_by_id :: "int \<Rightarrow> TaskWithUser option"

section \<open>JavaScript primitives the hook uses\<close>

text \<open>
  The white space and line terminators that \<^verbatim>\<open>trim\<close> strips, as far as they are
  8-bit: tab, line feed, vertical tab, form feed, carriage return, space and the
  no-break space U+00A0.
\<close>

definition is_whitespace :: "char \<Rightarrow> bool" where
  "is_whitespace c =
     (c \<in> set [CHR '' '', CHR 0x09, CHR 0x0A, CHR 0x0B, CHR 0x0C, CHR 0x0D, CHR 0xA0])"

definition js_trim :: "string \<Rightarrow> string" where
  "js_trim s = rev (dropWhile is_whitespace (rev (dropWhile is_whitespace s)))"

text \<open>
  The upper-case letters of the Latin-1 range are \<open>A\<close> to \<open>Z\<close> (codes 65 to 90)
  and U+00C0 to U+00DE (codes 192 to 222) without the multiplication sign U+00D7
  (code 215). The lower-case letter is 32 higher, which on these codes is setting
  bit 5. Every other code unit of the range is its own lower case.
\<close>

definition lower_char :: "char \<Rightarrow> char" where
  "lower_char c =
     (let n = (of_char c :: nat)
      in if (65 \<le> n \<and> n \<le> 90) \<or> (192 \<le> n \<and> n \<le> 222 \<and> n \<noteq> 215)
         then (case c of Char b0 b1 b2 b3 b4 b5 b6 b7 \<Rightarrow> Char b0 b1 b2 b3 b4 True b6 b7)
         else c)"

definition toLowerCase :: "string \<Rightarrow> string" where
  "toLowerCase s = map lower_char s"

fun starts_with :: "'a list \<Rightarrow> 'a list \<Rightarrow> bool" where
  "starts_with _ [] = True"
| "starts_with [] (_ # _) = False"
| "starts_with (x # xs) (y # ys) = (x = y \<and> starts_with xs ys)"

text \<open>\<^verbatim>\<open>hay.includes(needle)\<close>: the needle occurs as a contiguous substring.\<close>

fun js_includes :: "'a list \<Rightarrow> 'a list \<Rightarrow> bool" where
  "js_includes [] needle = starts_with [] needle"
| "js_includes (x # xs) needle = (starts_with (x # xs) needle \<or> js_includes xs needle)"

text \<open>
  \<^verbatim>\<open>xs.slice(start, end)\<close> with integer arguments: a negative index counts from the
  end, both are clamped to the length, and an empty range gives the empty array.
\<close>

definition js_slice :: "'a list \<Rightarrow> int \<Rightarrow> int \<Rightarrow> 'a list" where
  "js_slice xs start end =
     (let len = int (length xs);
          k = (if start < 0 then max (len + start) 0 else min start len);
          final = (if end < 0 then max (len + end) 0 else min end len)
      in take (nat (max (final - k) 0)) (drop (nat k) xs))"

text \<open>
  \<^verbatim>\<open>Math.ceil(a / b)\<close> on integers, for \<open>b \<noteq> 0\<close> (the lemma
  \<open>math_ceil_div_ceiling\<close> below relates it to the ceiling of the real quotient).
\<close>

definition math_ceil_div :: "int \<Rightarrow> int \<Rightarrow> int" where
  "math_ceil_div a b = - ((- a) div b)"

text \<open>\<^verbatim>\<open>n || 1\<close> on a number: zero is falsy.\<close>

definition or_one :: "int \<Rightarrow> int" where
  "or_one n = (if n = 0 then 1 else n)"

text \<open>\<^verbatim>\<open>count || 0\<close> on a nullable number.\<close>

definition or_zero :: "int option \<Rightarrow> int" where
  "or_zero c = (case c of None \<Rightarrow> 0 | Some n \<Rightarrow> n)"

section \<open>fetchTasks\<close>

text \<open>
  The filters of the count query and of the data query are built by the same two
  conditionals.
\<close>

definition query_filters :: "UseTasksOptions \<Rightarrow> QueryFilters" where
  "query_filters opts =
     \<lparr> eq_isCompleted =
         (if completionFilter opts = FilterActive then Some False
          else if completionFilter opts = FilterCompleted then Some True
          else None),
       or_ilike =
         (if js_trim (searchTerm opts) = [] then None else Some (searchTerm opts)) \<rparr>"

text \<open>The \<^verbatim>\<open>catch\<close> and \<^verbatim>\<open>finally\<close> blocks of \<^verbatim>\<open>fetchTasks\<close>.\<close>

definition fetch_failed :: "thrown \<Rightarrow> UseTasksState \<Rightarrow> UseTasksState" where
  "fetch_failed err st =
     st\<lparr> error := Some (error_message err ''Failed to fetch tasks''), isLoading := False \<rparr>"

text \<open>
  One run of \<^verbatim>\<open>fetchTasks\<close>: the state it leaves and the requests it issued, in
  order. The count query comes first; its failure ends the run before the data query
  is built.
\<close>

definition fetchTasks ::
  "UseTasksOptions \<Rightarrow> DataService \<Rightarrow> UseTasksState \<Rightarrow> UseTasksState \<times> request list" where
  "fetchTasks opts svc st =
     (let st1 = st\<lparr> isLoading := True, error := None \<rparr>;
          countQuery = query_filters opts
      in case count_query svc countQuery of
           Inl countError \<Rightarrow> (fetch_failed countError st1, [CountQuery countQuery])
         | Inr cnt \<Rightarrow>
             (let total = or_zero cnt;
                  totalPages' = or_one (math_ceil_div total (optPageSize opts));
                  validPage = min (page opts) totalPages';
                  actualPage = max 1 validPage;
                  from = (actualPage - 1) * optPageSize opts;
                  to = from + optPageSize opts - 1;
                  dataQuery = \<lparr> filters = query_filters opts,
                                ascending = (sortOrder opts = Oldest),
                                range_from = from, range_to = to \<rparr>;
                  log = [CountQuery countQuery, DataQuery dataQuery]
              in case data_query svc dataQuery of
                   Inl err \<Rightarrow> (fetch_failed err st1, log)
                 | Inr None \<Rightarrow> (st1\<lparr> isLoading := False \<rparr>, log)
                 | Inr (Some data) \<Rightarrow>
                     (st1\<lparr> tasks := data,
                           pagination :=
                             \<lparr> currentPage = actualPage,
                               totalPages = totalPages',
                               totalCount = total,
                               pageSize = optPageSize opts,
                               hasNextPage = (actualPage < totalPages'),
                               hasPrevPage = (actualPage > 1) \<rparr>,
                           isLoading := False \<rparr>, log)))"

section \<open>Optimistic mutations: updateTask, deleteTask, toggleTask\<close>

text \<open>
  A mutation sets state, awaits the Data Service, and on an error answer sets state
  again and rethrows. One run is recorded as the state after the optimistic
  \<^verbatim>\<open>setTasks\<close> (if the run got that far), the state at the end, the requests issued
  and the value rethrown to the caller (if any). The closure variable \<^verbatim>\<open>tasks\<close> of
  \<^verbatim>\<open>updateTask\<close> and \<^verbatim>\<open>deleteTask\<close> is the task list of the state the run starts
  from.
\<close>

record MutationRun =
  optimistic :: "UseTasksState option"
  final :: UseTasksState
  issued :: "request list"
  rethrown :: "thrown option"

text \<open>The \<^verbatim>\<open>catch\<close> block of a mutation: \<^verbatim>\<open>setError(errorMessage)\<close>, then rethrow.\<close>

definition mutation_failed :: "thrown \<Rightarrow> string \<Rightarrow> UseTasksState \<Rightarrow> UseTasksState" where
  "mutation_failed err fallback st = st\<lparr> error := Some (error_message err fallback) \<rparr>"

text \<open>
  The object spread \<^verbatim>\<open>{ ...task, ...updates }\<close>: every key present in the update
  wins, the id among them.
\<close>

definition apply_updates :: "TaskWithUser \<Rightarrow> TaskUpdate \<Rightarrow> TaskWithUser" where
  "apply_updates task updates =
     task\<lparr> row_id := (case upd_id updates of None \<Rightarrow> row_id task | Some v \<Rightarrow> v),
           title := (case upd_title updates of None \<Rightarrow> title task | Some v \<Rightarrow> v),
           description :=
             (case upd_description updates of None \<Rightarrow> description task | Some v \<Rightarrow> v),
           isCompleted :=
             (case upd_isCompleted updates of None \<Rightarrow> isCompleted task | Some v \<Rightarrow> v),
           created_at :=
             (case upd_created_at updates of None \<Rightarrow> created_at task | Some v \<Rightarrow> v),
           createdBy :=
             (case upd_createdBy updates of None \<Rightarrow> createdBy task | Some v \<Rightarrow> v) \<rparr>"

definition updateTask ::
  "DataService \<Rightarrow> int \<Rightarrow> TaskUpdate \<Rightarrow> UseTasksState \<Rightarrow> MutationRun" where
  "updateTask svc id' updates st =
     (let st1 = st\<lparr> error := None \<rparr>
      in case find (\<lambda>t. row_id t = Some id') (tasks st) of
           None \<Rightarrow>
             \<lparr> optimistic = None,
               final = mutation_failed (ErrorInstance ''Task not found'')
                         ''Failed to update task'' st1,
               issued = [],
               rethrown = Some (ErrorInstance ''Task not found'') \<rparr>
         | Some originalTask \<Rightarrow>
             (let st2 = st1\<lparr> tasks :=
                          map (\<lambda>task. if row_id task = Some id'
                                       then apply_updates task updates else task)
                            (tasks st1) \<rparr>
              in case update_row svc id' updates of
                   None \<Rightarrow>
                     \<lparr> optimistic = Some st2, final = st2,
                       issued = [UpdateRow id' updates], rethrown = None \<rparr>
                 | Some err \<Rightarrow>
                     (let st3 = st2\<lparr> tasks :=
                                  map (\<lambda>task. if row_id task = Some id'
                                               then originalTask else task)
                                    (tasks st2) \<rparr>
                      in \<lparr> optimistic = Some st2,
                           final = mutation_failed err ''Failed to update task'' st3,
                           issued = [UpdateRow id' updates],
                           rethrown = Some err \<rparr>)))"

definition deleteTask :: "DataService \<Rightarrow> int \<Rightarrow> UseTasksState \<Rightarrow> MutationRun" where
  "deleteTask svc id' st =
     (let st1 = st\<lparr> error := None \<rparr>
      in case find (\<lambda>t. row_id t = Some id') (tasks st) of
           None \<Rightarrow>
             \<lparr> optimistic = None,
               final = mutation_failed (ErrorInstance ''Task not found'')
                         ''Failed to delete task'' st1,
               issued = [],
               rethrown = Some (ErrorInstance ''Task not found'') \<rparr>
         | Some taskToDelete \<Rightarrow>
             (let st2 = st1\<lparr> tasks := filter (\<lambda>task. row_id task \<noteq> Some id') (tasks st1) \<rparr>
              in case delete_row svc id' of
                   None \<Rightarrow>
                     \<lparr> optimistic = Some st2, final = st2,
                       issued = [DeleteRow id'], rethrown = None \<rparr>
                 | Some err \<Rightarrow>
                     (let st3 = st2\<lparr> tasks := tasks st2 @ [taskToDelete] \<rparr>
                      in \<lparr> optimistic = Some st2,
                           final = mutation_failed err ''Failed to delete task'' st3,
                           issued = [DeleteRow id'],
                           rethrown = Some err \<rparr>)))"

text \<open>The update object \<^verbatim>\<open>{ isCompleted: v }\<close>.\<close>

definition only_isCompleted :: "bool \<Rightarrow> TaskUpdate" where
  "only_isCompleted v =
     \<lparr> upd_id = None, upd_title = None, upd_description = None,
       upd_isCompleted = Some (Some v), upd_created_at = None, upd_createdBy = None \<rparr>"

definition toggleTask :: "DataService \<Rightarrow> int \<Rightarrow> bool \<Rightarrow> UseTasksState \<Rightarrow> MutationRun" where
  "toggleTask svc id' isCompleted' st =
     (let st1 = st\<lparr> error := None \<rparr>;
          st2 = st1\<lparr> tasks :=
                  map (\<lambda>task. if row_id task = Some id'
                               then task\<lparr> isCompleted := Some (\<not> isCompleted') \<rparr> else task)
                    (tasks st1) \<rparr>
      in case update_row svc id' (only_isCompleted (\<not> isCompleted')) of
           None \<Rightarrow>
             \<lparr> optimistic = Some st2, final = st2,
               issued = [UpdateRow id' (only_isCompleted (\<not> isCompleted'))],
               rethrown = None \<rparr>
         | Some err \<Rightarrow>
             (let st3 = st2\<lparr> tasks :=
                          map (\<lambda>task. if row_id task = Some id'
                                       then task\<lparr> isCompleted := Some isCompleted' \<rparr>
                                       else task)
                            (tasks st2) \<rparr>
              in \<lparr> optimistic = Some st2,
                   final = mutation_failed err ''Failed to toggle task'' st3,
                   issued = [UpdateRow id' (only_isCompleted (\<not> isCompleted'))],
                   rethrown = Some err \<rparr>))"

section \<open>Realtime notification handlers\<close>

text \<open>
  \<^verbatim>\<open>(row.title?.toLowerCase().includes(searchLower) || false) ||
  (row.description?.toLowerCase().includes(searchLower) || false)\<close>
\<close>

definition field_includes :: "string option \<Rightarrow> string \<Rightarrow> bool" where
  "field_includes field searchLower =
     (case field of None \<Rightarrow> False | Some v \<Rightarrow> js_includes (toLowerCase v) searchLower)"

definition matchesSearch :: "TaskWithUser \<Rightarrow> string \<Rightarrow> bool" where
  "matchesSearch row term =
     (field_includes (title row) (toLowerCase term) \<or>
      field_includes (description row) (toLowerCase term))"

text \<open>Truthiness of a nullable number, as in \<^verbatim>\<open>newTask.id && ...\<close>.\<close>

definition truthy_id :: "int option \<Rightarrow> bool" where
  "truthy_id v = (case v of None \<Rightarrow> False | Some n \<Rightarrow> n \<noteq> 0)"

text \<open>The updater function passed to \<^verbatim>\<open>setTasks\<close> by \<^verbatim>\<open>handleRealtimeInsert\<close>.\<close>

definition insert_updater ::
  "UseTasksOptions \<Rightarrow> TaskWithUser \<Rightarrow> TaskWithUser list \<Rightarrow> TaskWithUser list" where
  "insert_updater opts newTask prevTasks =
     (if truthy_id (row_id newTask) \<and> list_ex (\<lambda>task. row_id task = row_id newTask) prevTasks
      then prevTasks
      else
        (let updatedTasks =
               (if sortOrder opts = Newest then newTask # prevTasks else prevTasks @ [newTask]);
             from = (page opts - 1) * optPageSize opts;
             to = from + optPageSize opts
         in js_slice updatedTasks from to))"

definition handleRealtimeInsert ::
  "UseTasksOptions \<Rightarrow> DataService \<Rightarrow> int \<Rightarrow> UseTasksState \<Rightarrow> UseTasksState" where
  "handleRealtimeInsert opts svc new_id st =
     (case select_by_id svc new_id of
        None \<Rightarrow> st
      | Some newTask \<Rightarrow>
          if completionFilter opts = FilterActive \<and> isCompleted newTask = Some True then st
          else if completionFilter opts = FilterCompleted \<and> isCompleted newTask \<noteq> Some True
          then st
          else if js_trim (searchTerm opts) \<noteq> [] \<and> \<not> matchesSearch newTask (searchTerm opts)
          then st
          else
            st\<lparr> tasks := insert_updater opts newTask (tasks st),
                pagination :=
                  (pagination st)
                    \<lparr> totalCount := totalCount (pagination st) + 1,
                      totalPages :=
                        math_ceil_div (totalCount (pagination st) + 1)
                          (pageSize (pagination st)) \<rparr> \<rparr>)"

text \<open>
  The pagination updater that \<^verbatim>\<open>handleRealtimeUpdate\<close> (on removal) and
  \<^verbatim>\<open>handleRealtimeDelete\<close> both pass to \<^verbatim>\<open>setPagination\<close>.
\<close>

definition decrement_count :: "PaginationInfo \<Rightarrow> PaginationInfo" where
  "decrement_count prev =
     prev\<lparr> totalCount := max 0 (totalCount prev - 1),
           totalPages := math_ceil_div (max 0 (totalCount prev - 1)) (pageSize prev) \<rparr>"

definition handleRealtimeUpdate ::
  "UseTasksOptions \<Rightarrow> DataService \<Rightarrow> int \<Rightarrow> UseTasksState \<Rightarrow> UseTasksState" where
  "handleRealtimeUpdate opts svc taskId st =
     (case select_by_id svc taskId of
        None \<Rightarrow> st
      | Some updatedTask \<Rightarrow>
          (let shouldRemove0 =
                 ((completionFilter opts = FilterActive \<and> isCompleted updatedTask = Some True) \<or>
                  (completionFilter opts = FilterCompleted \<and>
                   isCompleted updatedTask = Some False));
               shouldRemove =
                 (if \<not> shouldRemove0 \<and> js_trim (searchTerm opts) \<noteq> []
                  then \<not> matchesSearch updatedTask (searchTerm opts)
                  else shouldRemove0)
           in if shouldRemove
              then st\<lparr> tasks := filter (\<lambda>task. row_id task \<noteq> Some taskId) (tasks st),
                       pagination := decrement_count (pagination st) \<rparr>
              else st\<lparr> tasks :=
                         map (\<lambda>task. if row_id task = Some taskId then updatedTask else task)
                           (tasks st) \<rparr>))"

definition handleRealtimeDelete :: "int \<Rightarrow> UseTasksState \<Rightarrow> UseTasksState" where
  "handleRealtimeDelete deletedTaskId st =
     st\<lparr> tasks := filter (\<lambda>task. row_id task \<noteq> Some deletedTaskId) (tasks st),
         pagination := decrement_count (pagination st) \<rparr>"

text \<open>The initial values of the four \<^verbatim>\<open>useState\<close> cells.\<close>

definition initial_state :: "UseTasksOptions \<Rightarrow> UseTasksState" where
  "initial_state opts =
     \<lparr> tasks = [], isLoading = True, error = None,
       pagination =
         \<lparr> currentPage = page opts, totalPages = 1, totalCount = 0,
           pageSize = optPageSize opts, hasNextPage = False, hasPrevPage = False \<rparr> \<rparr>"

section \<open>The invariant of the cache, in the words of the data model\<close>

text \<open>
  The data model asks for \<open>totalPages = ceil(totalCount / pageSize)\<close>, minimum 1, and
  for a task list of at most \<open>pageSize\<close> entries.
\<close>

definition spec_totalPages :: "int \<Rightarrow> int \<Rightarrow> int" where
  "spec_totalPages n psize = max 1 \<lceil>real_of_int n / real_of_int psize\<rceil>"

definition pagination_invariant :: "UseTasksState \<Rightarrow> bool" where
  "pagination_invariant st =
     (int (length (tasks st)) \<le> pageSize (pagination st) \<and>
      totalPages (pagination st) =
        spec_totalPages (totalCount (pagination st)) (pageSize (pagination st)))"

section \<open>Concrete rows, options and services\<close>

definition example_task :: "int \<Rightarrow> string \<Rightarrow> bool \<Rightarrow> TaskWithUser" where
  "example_task n t completed =
     \<lparr> row_id = Some n, title = Some t, description = Some ''details'',
       isCompleted = Some completed, created_at = Some ''2025-01-01'', createdBy = Some ''u1'',
       creator_first_name = Some ''Ada'', creator_last_name = None,
       creator_email = Some ''ada@example.org'' \<rparr>"

definition example_options :: "int \<Rightarrow> int \<Rightarrow> UseTasksOptions" where
  "example_options p psize =
     \<lparr> searchTerm = [], sortOrder = Newest, completionFilter = FilterAll,
       page = p, optPageSize = psize \<rparr>"

text \<open>A service whose every request succeeds: \<open>n\<close> rows match, the page holds \<open>rows\<close>.\<close>

definition healthy_service :: "int \<Rightarrow> TaskWithUser list \<Rightarrow> DataService" where
  "healthy_service n rows =
     \<lparr> count_query = (\<lambda>_. Inr (Some n)),
       data_query = (\<lambda>_. Inr (Some rows)),
       update_row = (\<lambda>_ _. None),
       delete_row = (\<lambda>_. None),
       select_by_id = (\<lambda>i. find (\<lambda>t. row_id t = Some i) rows) \<rparr>"

text \<open>A service whose every request fails with \<open>err\<close>.\<close>

definition failing_service :: "thrown \<Rightarrow> DataService" where
  "failing_service err =
     \<lparr> count_query = (\<lambda>_. Inl err),
       data_query = (\<lambda>_. Inl err),
       update_row = (\<lambda>_ _. Some err),
       delete_row = (\<lambda>_. Some err),
       select_by_id = (\<lambda>_. None) \<rparr>"

text \<open>A service that counts \<open>n\<close> rows and then fails the data query.\<close>

definition data_failing_service :: "int \<Rightarrow> thrown \<Rightarrow> DataService" where
  "data_failing_service n err =
     \<lparr> count_query = (\<lambda>_. Inr (Some n)),
       data_query = (\<lambda>_. Inl err),
       update_row = (\<lambda>_ _. Some err),
       delete_row = (\<lambda>_. Some err),
       select_by_id = (\<lambda>_. None) \<rparr>"

text \<open>A state holding the first page \<open>rows\<close> of \<open>n\<close> matching tasks.\<close>

definition example_state :: "TaskWithUser list \<Rightarrow> int \<Rightarrow> int \<Rightarrow> UseTasksState" where
  "example_state rows n psize =
     \<lparr> tasks = rows, isLoading = False, error = None,
       pagination =
         \<lparr> currentPage = 1, totalPages = math_ceil_div n psize, totalCount = n,
           pageSize = psize, hasNextPage = (1 < math_ceil_div n psize),
           hasPrevPage = False \<rparr> \<rparr>"

text \<open>The update object \<^verbatim>\<open>{ title: t }\<close>.\<close>

definition retitle :: "string \<Rightarrow> TaskUpdate" where
  "retitle t =
     \<lparr> upd_id = None, upd_title = Some (Some t), upd_description = None,
       upd_isCompleted = None, upd_created_at = None, upd_createdBy = None \<rparr>"

text \<open>The update object \<^verbatim>\<open>{ id: n, title: t }\<close>.\<close>

definition reassign :: "int \<Rightarrow> string \<Rightarrow> TaskUpdate" where
  "reassign n t =
     \<lparr> upd_id = Some (Some n), upd_title = Some (Some t), upd_description = None,
       upd_isCompleted = None, upd_created_at = None, upd_createdBy = None \<rparr>"

text \<open>Options with a search term.\<close>

definition search_options :: "string \<Rightarrow> SortOrder \<Rightarrow> int \<Rightarrow> int \<Rightarrow> UseTasksOptions" where
  "search_options term order p psize =
     \<lparr> searchTerm = term, sortOrder = order, completionFilter = FilterAll,
       page = p, optPageSize = psize \<rparr>"

section \<open>Facts about the primitives\<close>

lemma math_ceil_div_ceiling:
  "b \<noteq> 0 \<Longrightarrow> math_ceil_div a b = \<lceil>real_of_int a / real_of_int b\<rceil>"
proof -
  have "\<lfloor>real_of_int (- a) / real_of_int b\<rfloor> = (- a) div b"
    by (rule floor_divide_of_int_eq)
  then show ?thesis
    unfolding math_ceil_div_def ceiling_def by simp
qed

lemma starts_with_iff: "starts_with hay needle \<longleftrightarrow> (\<exists>s. hay = needle @ s)"
  by (induction hay needle rule: starts_with.induct) auto

text \<open>\<^const>\<open>js_includes\<close> is the substring test.\<close>

lemma js_includes_iff: "js_includes hay needle \<longleftrightarrow> (\<exists>p s. hay = p @ needle @ s)"
proof (induction hay)
  case Nil
  then show ?case by (auto simp: starts_with_iff)
next
  case (Cons x xs)
  show ?case
  proof
    assume "js_includes (x # xs) needle"
    then consider "starts_with (x # xs) needle" | "js_includes xs needle" by auto
    then show "\<exists>p s. x # xs = p @ needle @ s"
    proof cases
      case 1
      then obtain s where "x # xs = needle @ s" by (auto simp: starts_with_iff)
      then have "x # xs = [] @ needle @ s" by simp
      then show ?thesis by blast
    next
      case 2
      then obtain p s where "xs = p @ needle @ s" using Cons.IH by blast
      then have "x # xs = (x # p) @ needle @ s" by simp
      then show ?thesis by blast
    qed
  next
    assume "\<exists>p s. x # xs = p @ needle @ s"
    then obtain p s where eq: "x # xs = p @ needle @ s" by blast
    show "js_includes (x # xs) needle"
    proof (cases p)
      case Nil
      then have "starts_with (x # xs) needle" using eq by (auto simp: starts_with_iff)
      then show ?thesis by simp
    next
      case (Cons y p')
      then have "xs = p' @ needle @ s" using eq by simp
      then have "js_includes xs needle" using Cons.IH by blast
      then show ?thesis by simp
    qed
  qed
qed

text \<open>With a start that is not negative, \<^const>\<open>js_slice\<close> is the half-open window.\<close>

lemma js_slice_window:
  assumes "0 \<le> a" and "a \<le> b"
  shows "js_slice xs a b = take (nat (b - a)) (drop (nat a) xs)"
proof (cases "a \<le> int (length xs)")
  case True
  then show ?thesis using assms
    by (auto simp: js_slice_def Let_def min_def max_def)
next
  case False
  then show ?thesis using assms
    by (auto simp: js_slice_def Let_def min_def max_def)
qed

text \<open>A patch that carries no id, or the id of the task itself, keeps the id.\<close>

lemma row_id_apply_updates:
  assumes "row_id task = Some i" and "upd_id updates = None \<or> upd_id updates = Some (Some i)"
  shows "row_id (apply_updates task updates) = Some i"
  using assms by (auto simp: apply_updates_def)

section \<open>Page validation in fetchTasks\<close>

lemma fetch_log:
  assumes "count_query svc (query_filters opts) = Inr cnt"
  shows "snd (fetchTasks opts svc st) =
     [CountQuery (query_filters opts),
      DataQuery \<lparr> filters = query_filters opts, ascending = (sortOrder opts = Oldest),
        range_from =
          (max 1 (min (page opts)
             (or_one (math_ceil_div (or_zero cnt) (optPageSize opts)))) - 1) * optPageSize opts,
        range_to =
          (max 1 (min (page opts)
             (or_one (math_ceil_div (or_zero cnt) (optPageSize opts)))) - 1) * optPageSize opts
          + optPageSize opts - 1 \<rparr>]"
  using assms
  by (simp add: fetchTasks_def Let_def split: sum.split option.split)

text \<open>
  C1. Once the count query has answered, the page served is the requested page
  clamped to the page count and then floored at 1: it is at least 1, it is the page
  count when the requested page lies beyond a positive page count, and the data
  request asks for the rows \<open>(served - 1) * pageSize\<close> to \<open>served * pageSize - 1\<close>.
  When the data query answers with rows, that page is the \<open>currentPage\<close> stored. The
  page count \<open>tp\<close> is the ceiling of the quotient of the count and the page size, with
  1 in place of 0.
\<close>

theorem fetchTasks_serves_clamped_page:
  fixes opts :: UseTasksOptions and svc :: DataService and st :: UseTasksState
    and cnt :: "int option"
  defines "c \<equiv> \<lceil>real_of_int (or_zero cnt) / real_of_int (optPageSize opts)\<rceil>"
  defines "tp \<equiv> (if c = 0 then 1 else c)"
  assumes cnt: "count_query svc (query_filters opts) = Inr cnt"
    and ps: "0 < optPageSize opts"
  shows "\<exists>served dq.
      snd (fetchTasks opts svc st) = [CountQuery (query_filters opts), DataQuery dq]
    \<and> served = max 1 (min (page opts) tp)
    \<and> 1 \<le> served
    \<and> (tp < page opts \<and> 0 < tp \<longrightarrow> served = tp)
    \<and> filters dq = query_filters opts
    \<and> ascending dq = (sortOrder opts = Oldest)
    \<and> range_from dq = (served - 1) * optPageSize opts
    \<and> range_to dq = served * optPageSize opts - 1
    \<and> (\<forall>data. data_query svc dq = Inr (Some data) \<longrightarrow>
          tasks (fst (fetchTasks opts svc st)) = data
        \<and> currentPage (pagination (fst (fetchTasks opts svc st))) = served
        \<and> totalPages (pagination (fst (fetchTasks opts svc st))) = tp)"
proof -
  have tp: "or_one (math_ceil_div (or_zero cnt) (optPageSize opts)) = tp"
    using ps by (simp add: or_one_def math_ceil_div_ceiling tp_def c_def)
  let ?served = "max 1 (min (page opts) tp)"
  let ?dq = "\<lparr> filters = query_filters opts, ascending = (sortOrder opts = Oldest),
        range_from = (?served - 1) * optPageSize opts,
        range_to = (?served - 1) * optPageSize opts + optPageSize opts - 1 \<rparr>"
  have log: "snd (fetchTasks opts svc st) = [CountQuery (query_filters opts), DataQuery ?dq]"
    using fetch_log [OF cnt, of st] by (simp add: tp)
  have to: "range_to ?dq = ?served * optPageSize opts - 1"
    by (simp add: algebra_simps)
  have ok: "tasks (fst (fetchTasks opts svc st)) = data
        \<and> currentPage (pagination (fst (fetchTasks opts svc st))) = ?served
        \<and> totalPages (pagination (fst (fetchTasks opts svc st))) = tp"
    if "data_query svc ?dq = Inr (Some data)" for data
    using that cnt by (simp add: fetchTasks_def Let_def tp)
  have clamp: "tp < page opts \<and> 0 < tp \<longrightarrow> ?served = tp"
    by auto
  show ?thesis
    apply (rule exI [of _ ?served], rule exI [of _ ?dq])
    using log to ok clamp by simp
qed

text \<open>
  Page 7 of 25 rows, ten to a page: there are three pages, page 3 is served and the
  rows 20 to 29 are requested.
\<close>

theorem fetchTasks_serves_clamped_page_witness:
  "count_query (healthy_service 25 []) (query_filters (example_options 7 10)) = Inr (Some 25)
   \<and> 0 < optPageSize (example_options 7 10)
   \<and> snd (fetchTasks (example_options 7 10) (healthy_service 25 [])
        (initial_state (example_options 7 10))) =
       [CountQuery \<lparr> eq_isCompleted = None, or_ilike = None \<rparr>,
        DataQuery \<lparr> filters = \<lparr> eq_isCompleted = None, or_ilike = None \<rparr>, ascending = False,
                    range_from = 20, range_to = 29 \<rparr>]
   \<and> currentPage (pagination (fst (fetchTasks (example_options 7 10) (healthy_service 25 [])
         (initial_state (example_options 7 10))))) = 3"
  using fetchTasks_serves_clamped_page [of "healthy_service 25 []" "example_options 7 10"
      "Some 25" "initial_state (example_options 7 10)"]
  by (simp add: healthy_service_def example_options_def query_filters_def js_trim_def
      or_zero_def or_one_def math_ceil_div_def fetchTasks_def Let_def)

section \<open>A failed fetch\<close>

text \<open>
  C6. When the count query fails, or the count query answers and the data query that
  follows fails, the run ends with the task list and the pagination metadata it
  started with, with the loading flag cleared, and with an error message in the
  state: the message of the failure when it is an \<^verbatim>\<open>Error\<close>, and
  \<open>Failed to fetch tasks\<close> otherwise.
\<close>

theorem fetchTasks_failure_keeps_cache:
  assumes "count_query svc (query_filters opts) = Inl e \<or>
           (\<exists>cq dq. snd (fetchTasks opts svc st) = [cq, DataQuery dq] \<and> data_query svc dq = Inl e)"
  shows "tasks (fst (fetchTasks opts svc st)) = tasks st
       \<and> pagination (fst (fetchTasks opts svc st)) = pagination st
       \<and> error (fst (fetchTasks opts svc st)) = Some (error_message e ''Failed to fetch tasks'')
       \<and> isLoading (fst (fetchTasks opts svc st)) = False"
  using assms
proof
  assume "count_query svc (query_filters opts) = Inl e"
  then show ?thesis
    by (simp add: fetchTasks_def Let_def fetch_failed_def)
next
  assume "\<exists>cq dq. snd (fetchTasks opts svc st) = [cq, DataQuery dq] \<and> data_query svc dq = Inl e"
  then obtain cq dq where log: "snd (fetchTasks opts svc st) = [cq, DataQuery dq]"
    and fail: "data_query svc dq = Inl e" by blast
  show ?thesis
  proof (cases "count_query svc (query_filters opts)")
    case (Inl a)
    then have "snd (fetchTasks opts svc st) = [CountQuery (query_filters opts)]"
      by (simp add: fetchTasks_def Let_def)
    with log show ?thesis by simp
  next
    case (Inr cnt)
    from log fail Inr show ?thesis
      by (auto simp: fetchTasks_def Let_def fetch_failed_def split: sum.splits option.splits)
  qed
qed

theorem fetchTasks_failure_keeps_cache_witness:
  "count_query (failing_service NonError) (query_filters (example_options 1 3)) = Inl NonError
   \<and> tasks (fst (fetchTasks (example_options 1 3) (failing_service NonError)
        (example_state [example_task 5 ''five'' False] 5 3))) = [example_task 5 ''five'' False]
   \<and> totalCount (pagination (fst (fetchTasks (example_options 1 3) (failing_service NonError)
        (example_state [example_task 5 ''five'' False] 5 3)))) = 5
   \<and> error (fst (fetchTasks (example_options 1 3) (failing_service NonError)
        (example_state [example_task 5 ''five'' False] 5 3))) = Some ''Failed to fetch tasks''
   \<and> length (snd (fetchTasks (example_options 1 3)
        (data_failing_service 9 (ErrorInstance ''timeout''))
        (example_state [example_task 5 ''five'' False] 5 3))) = 2
   \<and> tasks (fst (fetchTasks (example_options 1 3)
        (data_failing_service 9 (ErrorInstance ''timeout''))
        (example_state [example_task 5 ''five'' False] 5 3))) = [example_task 5 ''five'' False]
   \<and> totalCount (pagination (fst (fetchTasks (example_options 1 3)
        (data_failing_service 9 (ErrorInstance ''timeout''))
        (example_state [example_task 5 ''five'' False] 5 3)))) = 5
   \<and> error (fst (fetchTasks (example_options 1 3)
        (data_failing_service 9 (ErrorInstance ''timeout''))
        (example_state [example_task 5 ''five'' False] 5 3))) = Some ''timeout''"
proof -
  have reqs: "snd (fetchTasks (example_options 1 3)
        (data_failing_service 9 (ErrorInstance ''timeout''))
        (example_state [example_task 5 ''five'' False] 5 3)) =
      [CountQuery (query_filters (example_options 1 3)),
       DataQuery \<lparr> filters = query_filters (example_options 1 3), ascending = False,
                   range_from = 0, range_to = 2 \<rparr>]"
    by (simp add: fetchTasks_def Let_def data_failing_service_def example_options_def
        or_zero_def or_one_def math_ceil_div_def)
  have fails: "data_query (data_failing_service 9 (ErrorInstance ''timeout''))
      \<lparr> filters = query_filters (example_options 1 3), ascending = False,
        range_from = 0, range_to = 2 \<rparr> = Inl (ErrorInstance ''timeout'')"
    by (simp add: data_failing_service_def)
  have second: "\<exists>cq dq. snd (fetchTasks (example_options 1 3)
        (data_failing_service 9 (ErrorInstance ''timeout''))
        (example_state [example_task 5 ''five'' False] 5 3)) = [cq, DataQuery dq]
      \<and> data_query (data_failing_service 9 (ErrorInstance ''timeout'')) dq
          = Inl (ErrorInstance ''timeout'')"
    using reqs fails by blast
  show ?thesis
    using fetchTasks_failure_keeps_cache [of "failing_service NonError" "example_options 1 3"
        NonError "example_state [example_task 5 ''five'' False] 5 3"]
      fetchTasks_failure_keeps_cache [of "data_failing_service 9 (ErrorInstance ''timeout'')"
        "example_options 1 3" "ErrorInstance ''timeout''"
        "example_state [example_task 5 ''five'' False] 5 3"]
      second reqs
    by (simp add: failing_service_def example_state_def error_message_def)
qed

section \<open>Rollback of a failed update\<close>

lemma find_Some_row: "find P xs = Some x \<Longrightarrow> P x \<and> x \<in> set xs"
  by (induction xs) (auto split: if_splits)

lemma find_map_revert:
  assumes "find (\<lambda>t. row_id t = Some i) xs = Some orig"
  shows "find (\<lambda>t. row_id t = Some i)
           (map (\<lambda>task. if row_id task = Some i then orig else task) xs) = Some orig"
proof -
  have rid: "row_id orig = Some i" using find_Some_row [OF assms] by simp
  from assms show ?thesis
    by (induction xs) (auto simp: rid split: if_splits)
qed

lemma map_revert_identity:
  assumes "filter (\<lambda>t. row_id t = Some i) xs = [orig]"
  shows "map (\<lambda>task. if row_id task = Some i then orig else task) xs = xs"
proof -
  have "t = orig" if "t \<in> set xs" "row_id t = Some i" for t
  proof -
    from that have "t \<in> set (filter (\<lambda>t. row_id t = Some i) xs)" by simp
    with assms show ?thesis by simp
  qed
  then show ?thesis by (simp add: map_idI)
qed

lemma map_revert_optimistic:
  assumes "upd_id updates = None \<or> upd_id updates = Some (Some i)"
  shows "map (\<lambda>task. if row_id task = Some i then orig else task)
           (map (\<lambda>task. if row_id task = Some i then apply_updates task updates else task) xs)
       = map (\<lambda>task. if row_id task = Some i then orig else task) xs"
  using row_id_apply_updates [OF _ assms] by (induction xs) auto

text \<open>
  What holds: when the patch carries no id, or the id of the task itself, and the Data
  Service refuses the update, every entry with that id is, after the rollback, the
  snapshot taken before the optimistic patch; the first entry with the id is again
  the snapshot, and a cache that holds the id once is exactly the cache before the
  call.
\<close>

lemma updateTask_rollback_when_id_kept:
  assumes found: "find (\<lambda>t. row_id t = Some i) (tasks st) = Some orig"
    and failed: "update_row svc i updates = Some err"
    and kept: "upd_id updates = None \<or> upd_id updates = Some (Some i)"
  shows "tasks (final (updateTask svc i updates st)) =
           map (\<lambda>task. if row_id task = Some i then orig else task) (tasks st)
       \<and> find (\<lambda>t. row_id t = Some i) (tasks (final (updateTask svc i updates st))) = Some orig
       \<and> (filter (\<lambda>t. row_id t = Some i) (tasks st) = [orig] \<longrightarrow>
            tasks (final (updateTask svc i updates st)) = tasks st)
       \<and> pagination (final (updateTask svc i updates st)) = pagination st
       \<and> rethrown (updateTask svc i updates st) = Some err"
proof -
  have "tasks (final (updateTask svc i updates st)) =
          map (\<lambda>task. if row_id task = Some i then orig else task)
            (map (\<lambda>task. if row_id task = Some i then apply_updates task updates else task)
               (tasks st))"
    using found failed by (simp add: updateTask_def Let_def mutation_failed_def)
  then have t: "tasks (final (updateTask svc i updates st)) =
           map (\<lambda>task. if row_id task = Some i then orig else task) (tasks st)"
    by (simp only: map_revert_optimistic [OF kept])
  have p: "pagination (final (updateTask svc i updates st)) = pagination st
       \<and> rethrown (updateTask svc i updates st) = Some err"
    using found failed by (simp add: updateTask_def Let_def mutation_failed_def)
  show ?thesis
    using t p find_map_revert [OF found] map_revert_identity [of i "tasks st" orig]
    by simp
qed

text \<open>
  Renaming task 4 to \<open>X\<close> against a failing service: the optimistic list shows the
  new title, the final list is the original one.
\<close>

lemma updateTask_rollback_of_retitle:
  "map title (tasks (the (optimistic (updateTask (failing_service NonError) 4 (retitle ''X'')
        (example_state [example_task 5 ''five'' False, example_task 4 ''four'' False] 2 3)))))
     = [Some ''five'', Some ''X'']
   \<and> tasks (final (updateTask (failing_service NonError) 4 (retitle ''X'')
        (example_state [example_task 5 ''five'' False, example_task 4 ''four'' False] 2 3)))
     = [example_task 5 ''five'' False, example_task 4 ''four'' False]"
  using updateTask_rollback_when_id_kept [of 4
      "example_state [example_task 5 ''five'' False, example_task 4 ''four'' False] 2 3"
      "example_task 4 ''four'' False" "failing_service NonError" "retitle ''X''" NonError]
  by (simp add: example_state_def example_task_def failing_service_def retitle_def
      updateTask_def Let_def apply_updates_def)

text \<open>
  C4. The rollback does not restore the snapshot when the patch carries another id.
  The cache holds the tasks 5 and 4; \<open>update(4, {id: 9, title: "X"})\<close> is refused by
  the Data Service. The snapshot of task 4 is taken and the optimistic patch turns the
  entry into one with id 9 and title \<open>X\<close>; the rollback looks for an entry with id 4,
  finds none, and the cache keeps the patched entry: no entry with id 4 is left and
  the list differs from the one before the call.
\<close>

theorem updateTask_rollback_misses_changed_id:
  "find (\<lambda>t. row_id t = Some 4)
     (tasks (example_state [example_task 5 ''five'' False, example_task 4 ''four'' False] 2 3))
     = Some (example_task 4 ''four'' False)
   \<and> update_row (failing_service NonError) 4 (reassign 9 ''X'') = Some NonError
   \<and> rethrown (updateTask (failing_service NonError) 4 (reassign 9 ''X'')
        (example_state [example_task 5 ''five'' False, example_task 4 ''four'' False] 2 3))
     = Some NonError
   \<and> tasks (final (updateTask (failing_service NonError) 4 (reassign 9 ''X'')
        (example_state [example_task 5 ''five'' False, example_task 4 ''four'' False] 2 3)))
     = [example_task 5 ''five'' False, example_task 9 ''X'' False]
   \<and> find (\<lambda>t. row_id t = Some 4)
       (tasks (final (updateTask (failing_service NonError) 4 (reassign 9 ''X'')
        (example_state [example_task 5 ''five'' False, example_task 4 ''four'' False] 2 3))))
     = None
   \<and> tasks (final (updateTask (failing_service NonError) 4 (reassign 9 ''X'')
        (example_state [example_task 5 ''five'' False, example_task 4 ''four'' False] 2 3)))
     \<noteq> tasks (example_state [example_task 5 ''five'' False, example_task 4 ''four'' False] 2 3)"
  by (simp add: example_state_def example_task_def failing_service_def reassign_def
      updateTask_def Let_def apply_updates_def mutation_failed_def)

section \<open>toggleTask\<close>

text \<open>
  C9. The optimistic update of \<open>toggle(id, current)\<close> stores the negation of the
  value passed in, in every entry with that id. When the Data Service refuses the
  update, the rollback stores the value passed in, whatever the entry held before the
  call.
\<close>

theorem toggleTask_flips_and_rolls_back:
  "(\<exists>st2. optimistic (toggleTask svc i b st) = Some st2
      \<and> tasks st2 = map (\<lambda>task. if row_id task = Some i
                                 then task\<lparr> isCompleted := Some (\<not> b) \<rparr> else task) (tasks st))
   \<and> issued (toggleTask svc i b st) = [UpdateRow i (only_isCompleted (\<not> b))]
   \<and> (update_row svc i (only_isCompleted (\<not> b)) = None \<longrightarrow>
        tasks (final (toggleTask svc i b st)) =
          map (\<lambda>task. if row_id task = Some i
                       then task\<lparr> isCompleted := Some (\<not> b) \<rparr> else task) (tasks st)
        \<and> rethrown (toggleTask svc i b st) = None)
   \<and> (\<forall>err. update_row svc i (only_isCompleted (\<not> b)) = Some err \<longrightarrow>
        tasks (final (toggleTask svc i b st)) =
          map (\<lambda>task. if row_id task = Some i
                       then task\<lparr> isCompleted := Some b \<rparr> else task) (tasks st)
        \<and> (\<forall>t \<in> set (tasks (final (toggleTask svc i b st))).
              row_id t = Some i \<longrightarrow> isCompleted t = Some b)
        \<and> error (final (toggleTask svc i b st)) = Some (error_message err ''Failed to toggle task'')
        \<and> rethrown (toggleTask svc i b st) = Some err)"
proof -
  have opt: "\<exists>st2. optimistic (toggleTask svc i b st) = Some st2
      \<and> tasks st2 = map (\<lambda>task. if row_id task = Some i
                                 then task\<lparr> isCompleted := Some (\<not> b) \<rparr> else task) (tasks st)"
    by (cases "update_row svc i (only_isCompleted (\<not> b))")
       (simp_all add: toggleTask_def Let_def)
  have iss: "issued (toggleTask svc i b st) = [UpdateRow i (only_isCompleted (\<not> b))]"
    by (cases "update_row svc i (only_isCompleted (\<not> b))")
       (simp_all add: toggleTask_def Let_def)
  have ok: "tasks (final (toggleTask svc i b st)) =
          map (\<lambda>task. if row_id task = Some i
                       then task\<lparr> isCompleted := Some (\<not> b) \<rparr> else task) (tasks st)
        \<and> rethrown (toggleTask svc i b st) = None"
    if "update_row svc i (only_isCompleted (\<not> b)) = None"
    using that by (simp add: toggleTask_def Let_def)
  have rolled: "tasks (final (toggleTask svc i b st)) =
          map (\<lambda>task. if row_id task = Some i
                       then task\<lparr> isCompleted := Some b \<rparr> else task) (tasks st)
        \<and> error (final (toggleTask svc i b st)) = Some (error_message err ''Failed to toggle task'')
        \<and> rethrown (toggleTask svc i b st) = Some err"
    if "update_row svc i (only_isCompleted (\<not> b)) = Some err" for err
    using that by (simp add: toggleTask_def Let_def mutation_failed_def)
  have each: "\<forall>t \<in> set (tasks (final (toggleTask svc i b st))).
              row_id t = Some i \<longrightarrow> isCompleted t = Some b"
    if "update_row svc i (only_isCompleted (\<not> b)) = Some err" for err
    using rolled [OF that] by auto
  show ?thesis
    using opt iss ok rolled each by blast
qed

text \<open>
  Task 4 is not completed in the cache. A toggle that passes \<open>True\<close> as the current
  value (a stale view) and fails leaves it completed: the rollback target is the
  argument. A toggle that passes \<open>False\<close> and succeeds leaves it completed as well.
\<close>

theorem toggleTask_flips_and_rolls_back_witness:
  "update_row (failing_service NonError) 4 (only_isCompleted (\<not> True)) = Some NonError
   \<and> map isCompleted (tasks (the (optimistic (toggleTask (failing_service NonError) 4 True
        (example_state [example_task 5 ''five'' False, example_task 4 ''four'' False] 2 3)))))
     = [Some False, Some False]
   \<and> map isCompleted (tasks (final (toggleTask (failing_service NonError) 4 True
        (example_state [example_task 5 ''five'' False, example_task 4 ''four'' False] 2 3))))
     = [Some False, Some True]
   \<and> update_row (healthy_service 2 []) 4 (only_isCompleted (\<not> False)) = None
   \<and> map isCompleted (tasks (final (toggleTask (healthy_service 2 []) 4 False
        (example_state [example_task 5 ''five'' False, example_task 4 ''four'' False] 2 3))))
     = [Some False, Some True]"
  using toggleTask_flips_and_rolls_back [of "failing_service NonError" 4 True
      "example_state [example_task 5 ''five'' False, example_task 4 ''four'' False] 2 3"]
    toggleTask_flips_and_rolls_back [of "healthy_service 2 []" 4 False
      "example_state [example_task 5 ''five'' False, example_task 4 ''four'' False] 2 3"]
  by (simp add: example_state_def example_task_def failing_service_def healthy_service_def
      toggleTask_def Let_def mutation_failed_def)

section \<open>Mutations of an id that is not in the cache\<close>

text \<open>
  C5, as stated, fails for toggle: on an empty cache \<open>toggle(7, false)\<close> sends the
  update request, rethrows nothing and sets no error.
\<close>

theorem toggleTask_absent_id_contacts_service:
  "issued (toggleTask (healthy_service 0 []) 7 False (initial_state (example_options 1 10)))
     = [UpdateRow 7 (only_isCompleted True)]
   \<and> rethrown (toggleTask (healthy_service 0 []) 7 False (initial_state (example_options 1 10)))
     = None
   \<and> error (final (toggleTask (healthy_service 0 []) 7 False
       (initial_state (example_options 1 10)))) = None
   \<and> find (\<lambda>t. row_id t = Some 7) (tasks (initial_state (example_options 1 10))) = None"
  by (simp add: toggleTask_def Let_def healthy_service_def initial_state_def)

text \<open>
  C5, amended. For an id that is not in the cache, update and delete issue no request,
  rethrow an \<^verbatim>\<open>Error\<close> with the message \<open>Task not found\<close>, surface that message
  and leave the task list and the pagination as they were. Toggle has no such check:
  it issues its update request.
\<close>

theorem absent_id_precondition:
  assumes absent: "find (\<lambda>t. row_id t = Some i) (tasks st) = None"
  shows "issued (updateTask svc i updates st) = []
       \<and> rethrown (updateTask svc i updates st) = Some (ErrorInstance ''Task not found'')
       \<and> error (final (updateTask svc i updates st)) = Some ''Task not found''
       \<and> tasks (final (updateTask svc i updates st)) = tasks st
       \<and> pagination (final (updateTask svc i updates st)) = pagination st
       \<and> issued (deleteTask svc i st) = []
       \<and> rethrown (deleteTask svc i st) = Some (ErrorInstance ''Task not found'')
       \<and> error (final (deleteTask svc i st)) = Some ''Task not found''
       \<and> tasks (final (deleteTask svc i st)) = tasks st
       \<and> pagination (final (deleteTask svc i st)) = pagination st
       \<and> issued (toggleTask svc i b st) = [UpdateRow i (only_isCompleted (\<not> b))]"
proof -
  have u: "updateTask svc i updates st =
      \<lparr> optimistic = None,
        final = mutation_failed (ErrorInstance ''Task not found'') ''Failed to update task''
                  (st\<lparr> error := None \<rparr>),
        issued = [], rethrown = Some (ErrorInstance ''Task not found'') \<rparr>"
    using absent by (simp add: updateTask_def Let_def)
  have d: "deleteTask svc i st =
      \<lparr> optimistic = None,
        final = mutation_failed (ErrorInstance ''Task not found'') ''Failed to delete task''
                  (st\<lparr> error := None \<rparr>),
        issued = [], rethrown = Some (ErrorInstance ''Task not found'') \<rparr>"
    using absent by (simp add: deleteTask_def Let_def)
  have t: "issued (toggleTask svc i b st) = [UpdateRow i (only_isCompleted (\<not> b))]"
    by (cases "update_row svc i (only_isCompleted (\<not> b))")
       (simp_all add: toggleTask_def Let_def)
  show ?thesis
    by (simp add: u d t mutation_failed_def error_message_def)
qed

theorem absent_id_precondition_witness:
  "find (\<lambda>t. row_id t = Some 7)
     (tasks (example_state [example_task 5 ''five'' False] 1 3)) = None
   \<and> issued (updateTask (healthy_service 1 []) 7 (retitle ''X'')
        (example_state [example_task 5 ''five'' False] 1 3)) = []
   \<and> error (final (deleteTask (healthy_service 1 []) 7
        (example_state [example_task 5 ''five'' False] 1 3))) = Some ''Task not found''
   \<and> issued (toggleTask (healthy_service 1 []) 7 True
        (example_state [example_task 5 ''five'' False] 1 3))
      = [UpdateRow 7 (only_isCompleted False)]"
  using absent_id_precondition [of 7 "example_state [example_task 5 ''five'' False] 1 3"
      "healthy_service 1 []" "retitle ''X''" True]
  by (simp add: example_state_def example_task_def)

section \<open>Rollback of a failed delete\<close>

text \<open>
  C7, as stated, fails on the message: when the failure is an \<^verbatim>\<open>Error\<close> instance,
  the message surfaced is the one it carries.
\<close>

theorem deleteTask_failure_surfaces_error_message:
  "error (final (deleteTask (failing_service (ErrorInstance ''connection lost'')) 4
      (example_state [example_task 5 ''five'' False, example_task 4 ''four'' False] 2 3)))
     = Some ''connection lost''
   \<and> find (\<lambda>t. row_id t = Some 4)
       (tasks (example_state [example_task 5 ''five'' False, example_task 4 ''four'' False] 2 3))
     = Some (example_task 4 ''four'' False)
   \<and> delete_row (failing_service (ErrorInstance ''connection lost'')) 4
     = Some (ErrorInstance ''connection lost'')"
  by (simp add: deleteTask_def Let_def failing_service_def example_state_def example_task_def
      mutation_failed_def error_message_def)

text \<open>
  C7, amended. When the task is in the cache and the Data Service refuses the delete,
  the removed task is appended to the task list, the pagination (and with it
  \<open>totalCount\<close>) is unchanged, and the error surfaced is the message of the failure
  when the failure is an \<^verbatim>\<open>Error\<close> instance, and \<open>Failed to delete task\<close>
  otherwise.
\<close>

theorem deleteTask_rollback_appends:
  assumes found: "find (\<lambda>t. row_id t = Some i) (tasks st) = Some taskToDelete"
    and failed: "delete_row svc i = Some err"
  shows "tasks (final (deleteTask svc i st)) =
           filter (\<lambda>task. row_id task \<noteq> Some i) (tasks st) @ [taskToDelete]
       \<and> taskToDelete \<in> set (tasks (final (deleteTask svc i st)))
       \<and> pagination (final (deleteTask svc i st)) = pagination st
       \<and> error (final (deleteTask svc i st)) =
           Some (case err of ErrorInstance m \<Rightarrow> m | NonError \<Rightarrow> ''Failed to delete task'')
       \<and> issued (deleteTask svc i st) = [DeleteRow i]
       \<and> rethrown (deleteTask svc i st) = Some err"
  using found failed
  by (simp add: deleteTask_def Let_def mutation_failed_def error_message_def)

theorem deleteTask_rollback_appends_witness:
  "find (\<lambda>t. row_id t = Some 4)
     (tasks (example_state [example_task 4 ''four'' False, example_task 3 ''three'' False] 2 3))
     = Some (example_task 4 ''four'' False)
   \<and> delete_row (failing_service NonError) 4 = Some NonError
   \<and> tasks (final (deleteTask (failing_service NonError) 4
        (example_state [example_task 4 ''four'' False, example_task 3 ''three'' False] 2 3)))
     = [example_task 3 ''three'' False, example_task 4 ''four'' False]
   \<and> totalCount (pagination (final (deleteTask (failing_service NonError) 4
        (example_state [example_task 4 ''four'' False, example_task 3 ''three'' False] 2 3)))) = 2
   \<and> error (final (deleteTask (failing_service NonError) 4
        (example_state [example_task 4 ''four'' False, example_task 3 ''three'' False] 2 3)))
     = Some ''Failed to delete task''"
  using deleteTask_rollback_appends [of 4
      "example_state [example_task 4 ''four'' False, example_task 3 ''three'' False] 2 3"
      "example_task 4 ''four'' False" "failing_service NonError" NonError]
  by (simp add: example_state_def example_task_def failing_service_def)

section \<open>Insert notifications\<close>

text \<open>
  \<^const>\<open>matchesSearch\<close> is the case-insensitive substring test over title and
  description: some present field, lower-cased, contains the lower-cased term.
\<close>

lemma matchesSearch_iff:
  "matchesSearch row term \<longleftrightarrow>
     (\<exists>v p s. (title row = Some v \<or> description row = Some v)
        \<and> toLowerCase v = p @ toLowerCase term @ s)"
  by (cases "title row"; cases "description row")
     (auto simp: matchesSearch_def field_includes_def js_includes_iff)

lemma insert_updater_new:
  assumes "\<not> list_ex (\<lambda>t. row_id t = row_id newTask) prevTasks"
    and "1 \<le> page opts" and "0 \<le> optPageSize opts"
  shows "insert_updater opts newTask prevTasks =
     take (nat (optPageSize opts)) (drop (nat ((page opts - 1) * optPageSize opts))
       (if sortOrder opts = Newest then newTask # prevTasks else prevTasks @ [newTask]))"
proof -
  have "0 \<le> (page opts - 1) * optPageSize opts" using assms by simp
  then show ?thesis using assms
    by (simp add: insert_updater_def Let_def js_slice_window)
qed

text \<open>
  C2, as stated, fails for a search term that is blank. With the term of two spaces,
  the row \<open>T6\<close> fails the case-insensitive substring test (neither its title nor its
  description contains two spaces), yet it is not discarded: the test is run only
  under \<^verbatim>\<open>if (searchTerm.trim())\<close>, so the row is inserted at the head and the count
  grows to 6. The same holds for a term that is one no-break space.
\<close>

theorem blank_search_term_inserts_row:
  "\<not> matchesSearch (example_task 6 ''T6'' False) [CHR '' '', CHR '' '']
   \<and> tasks (handleRealtimeInsert (search_options [CHR '' '', CHR '' ''] Newest 1 3)
        (healthy_service 6 [example_task 6 ''T6'' False]) 6
        (example_state [example_task 5 ''T5'' False, example_task 4 ''T4'' False,
           example_task 3 ''T3'' False] 5 3))
     = [example_task 6 ''T6'' False, example_task 5 ''T5'' False, example_task 4 ''T4'' False]
   \<and> totalCount (pagination (handleRealtimeInsert
        (search_options [CHR '' '', CHR '' ''] Newest 1 3)
        (healthy_service 6 [example_task 6 ''T6'' False]) 6
        (example_state [example_task 5 ''T5'' False, example_task 4 ''T4'' False,
           example_task 3 ''T3'' False] 5 3))) = 6
   \<and> \<not> matchesSearch (example_task 6 ''T6'' False) [CHR 0xA0]
   \<and> tasks (handleRealtimeInsert (search_options [CHR 0xA0] Newest 1 3)
        (healthy_service 6 [example_task 6 ''T6'' False]) 6
        (example_state [example_task 5 ''T5'' False, example_task 4 ''T4'' False,
           example_task 3 ''T3'' False] 5 3))
     = [example_task 6 ''T6'' False, example_task 5 ''T5'' False, example_task 4 ''T4'' False]"
  by (simp add: matchesSearch_def field_includes_def toLowerCase_def lower_char_def
      handleRealtimeInsert_def insert_updater_def truthy_id_def Let_def js_slice_def
      js_trim_def is_whitespace_def search_options_def healthy_service_def
      example_state_def example_task_def)

text \<open>
  C2, amended. Let the joined row of the notification be found. The row is discarded,
  and the state (so also \<open>totalCount\<close>) left as it was, if the completion filter is
  \<open>active\<close> and the row is completed, or the filter is \<open>completed\<close> and the row is
  not completed, or the search term is not blank (not empty once trimmed) and neither
  the title nor the description of the row contains the term as a case-insensitive
  substring. Otherwise, when no entry of the cache has the row's id, the row is put at
  the head (newest first) or at the tail (oldest first), the list is cut to the
  entries \<open>(page - 1) * pageSize\<close> up to but not including \<open>page * pageSize\<close> of that
  extended list, \<open>totalCount\<close> grows by one and \<open>totalPages\<close> is the ceiling of the
  new count over the page size.
\<close>

theorem handleRealtimeInsert_merges_row:
  fixes opts :: UseTasksOptions and newTask :: TaskWithUser
  defines "mismatch \<equiv>
      (completionFilter opts = FilterActive \<and> isCompleted newTask = Some True)
    \<or> (completionFilter opts = FilterCompleted \<and> isCompleted newTask \<noteq> Some True)
    \<or> (js_trim (searchTerm opts) \<noteq> [] \<and>
        \<not> (\<exists>v p s. (title newTask = Some v \<or> description newTask = Some v)
              \<and> toLowerCase v = p @ toLowerCase (searchTerm opts) @ s))"
  assumes row: "select_by_id svc new_id = Some newTask"
  shows "(mismatch \<longrightarrow> handleRealtimeInsert opts svc new_id st = st)
    \<and> (\<not> mismatch \<and> \<not> list_ex (\<lambda>t. row_id t = row_id newTask) (tasks st)
         \<and> 1 \<le> page opts \<and> 0 \<le> optPageSize opts \<and> 0 < pageSize (pagination st) \<longrightarrow>
         tasks (handleRealtimeInsert opts svc new_id st) =
           take (nat (optPageSize opts)) (drop (nat ((page opts - 1) * optPageSize opts))
             (if sortOrder opts = Newest then newTask # tasks st else tasks st @ [newTask]))
       \<and> totalCount (pagination (handleRealtimeInsert opts svc new_id st)) =
           totalCount (pagination st) + 1
       \<and> totalPages (pagination (handleRealtimeInsert opts svc new_id st)) =
           \<lceil>real_of_int (totalCount (pagination st) + 1)
              / real_of_int (pageSize (pagination st))\<rceil>)"
proof -
  have m: "mismatch \<longleftrightarrow>
      (completionFilter opts = FilterActive \<and> isCompleted newTask = Some True)
    \<or> (completionFilter opts = FilterCompleted \<and> isCompleted newTask \<noteq> Some True)
    \<or> (js_trim (searchTerm opts) \<noteq> [] \<and> \<not> matchesSearch newTask (searchTerm opts))"
    unfolding mismatch_def matchesSearch_iff by simp
  have discard: "handleRealtimeInsert opts svc new_id st = st" if mismatch
    using that row unfolding m by (auto simp: handleRealtimeInsert_def)
  have merged: "handleRealtimeInsert opts svc new_id st =
      st\<lparr> tasks := insert_updater opts newTask (tasks st),
          pagination := (pagination st)
            \<lparr> totalCount := totalCount (pagination st) + 1,
              totalPages := math_ceil_div (totalCount (pagination st) + 1)
                              (pageSize (pagination st)) \<rparr> \<rparr>" if "\<not> mismatch"
    using that row unfolding m by (auto simp: handleRealtimeInsert_def)
  show ?thesis
    using discard
    by (auto simp: merged insert_updater_new math_ceil_div_ceiling simp del: of_int_add)
qed

text \<open>
  Five runs. The two scenarios of the specification: \<open>[T5, T4, T3]\<close>, newest first,
  three to a page, five in total, and a notification for \<open>T6\<close> give \<open>[T6, T5, T4]\<close>,
  six in total, two pages; with the search term \<open>bug\<close>, a notification for a task
  titled \<open>Release notes\<close> changes nothing. Case is folded on both sides: with the term
  \<open>BUG\<close> a task titled \<open>Fix Login Bug\<close> is appended (oldest first), and with the
  term \<open>caf\<close> followed by U+00E9 so is a task titled \<open>CAF\<close> followed by U+00C9.
  A term of a no-break space, a space and a tab is blank: no search is active and the
  task titled \<open>Release notes\<close> is appended.
\<close>

theorem handleRealtimeInsert_merges_row_witness:
  "select_by_id (healthy_service 6 [example_task 6 ''T6'' False]) 6
     = Some (example_task 6 ''T6'' False)
   \<and> tasks (handleRealtimeInsert (example_options 1 3)
        (healthy_service 6 [example_task 6 ''T6'' False]) 6
        (example_state [example_task 5 ''T5'' False, example_task 4 ''T4'' False,
           example_task 3 ''T3'' False] 5 3))
     = [example_task 6 ''T6'' False, example_task 5 ''T5'' False, example_task 4 ''T4'' False]
   \<and> totalCount (pagination (handleRealtimeInsert (example_options 1 3)
        (healthy_service 6 [example_task 6 ''T6'' False]) 6
        (example_state [example_task 5 ''T5'' False, example_task 4 ''T4'' False,
           example_task 3 ''T3'' False] 5 3))) = 6
   \<and> totalPages (pagination (handleRealtimeInsert (example_options 1 3)
        (healthy_service 6 [example_task 6 ''T6'' False]) 6
        (example_state [example_task 5 ''T5'' False, example_task 4 ''T4'' False,
           example_task 3 ''T3'' False] 5 3))) = 2
   \<and> select_by_id (healthy_service 2 [example_task 2 ''Release notes'' False]) 2
     = Some (example_task 2 ''Release notes'' False)
   \<and> handleRealtimeInsert (search_options ''bug'' Newest 1 3)
        (healthy_service 2 [example_task 2 ''Release notes'' False]) 2
        (example_state [example_task 1 ''Fix login bug'' False] 1 3)
     = example_state [example_task 1 ''Fix login bug'' False] 1 3
   \<and> tasks (handleRealtimeInsert (search_options ''BUG'' Oldest 1 3)
        (healthy_service 2 [example_task 2 ''Fix Login Bug'' False]) 2
        (example_state [example_task 1 ''Fix login bug'' False] 1 3))
     = [example_task 1 ''Fix login bug'' False, example_task 2 ''Fix Login Bug'' False]
   \<and> tasks (handleRealtimeInsert (search_options (''caf'' @ [CHR 0xE9]) Oldest 1 3)
        (healthy_service 2 [example_task 2 (''CAF'' @ [CHR 0xC9]) False]) 2
        (example_state [example_task 1 ''Fix login bug'' False] 1 3))
     = [example_task 1 ''Fix login bug'' False, example_task 2 (''CAF'' @ [CHR 0xC9]) False]
   \<and> js_trim [CHR 0xA0, CHR '' '', CHR 0x09] = []
   \<and> tasks (handleRealtimeInsert (search_options [CHR 0xA0, CHR '' '', CHR 0x09] Oldest 1 3)
        (healthy_service 2 [example_task 2 ''Release notes'' False]) 2
        (example_state [example_task 1 ''Fix login bug'' False] 1 3))
     = [example_task 1 ''Fix login bug'' False, example_task 2 ''Release notes'' False]"
proof -
  have miss: "\<not> matchesSearch (example_task 2 ''Release notes'' False) ''bug''"
    by (simp add: matchesSearch_def field_includes_def toLowerCase_def lower_char_def
        example_task_def)
  have trim: "js_trim ''bug'' \<noteq> []"
    by (simp add: js_trim_def is_whitespace_def)
  have sel: "select_by_id (healthy_service 2 [example_task 2 ''Release notes'' False]) 2
     = Some (example_task 2 ''Release notes'' False)"
    by (simp add: healthy_service_def example_task_def)
  have discarded: "handleRealtimeInsert (search_options ''bug'' Newest 1 3)
        (healthy_service 2 [example_task 2 ''Release notes'' False]) 2
        (example_state [example_task 1 ''Fix login bug'' False] 1 3)
     = example_state [example_task 1 ''Fix login bug'' False] 1 3"
    using handleRealtimeInsert_merges_row [OF sel, of "search_options ''bug'' Newest 1 3"
        "example_state [example_task 1 ''Fix login bug'' False] 1 3"]
      miss [unfolded matchesSearch_iff] trim
    by (simp add: search_options_def)
  have inserted: "tasks (handleRealtimeInsert (example_options 1 3)
        (healthy_service 6 [example_task 6 ''T6'' False]) 6
        (example_state [example_task 5 ''T5'' False, example_task 4 ''T4'' False,
           example_task 3 ''T3'' False] 5 3))
     = [example_task 6 ''T6'' False, example_task 5 ''T5'' False, example_task 4 ''T4'' False]
   \<and> totalCount (pagination (handleRealtimeInsert (example_options 1 3)
        (healthy_service 6 [example_task 6 ''T6'' False]) 6
        (example_state [example_task 5 ''T5'' False, example_task 4 ''T4'' False,
           example_task 3 ''T3'' False] 5 3))) = 6
   \<and> totalPages (pagination (handleRealtimeInsert (example_options 1 3)
        (healthy_service 6 [example_task 6 ''T6'' False]) 6
        (example_state [example_task 5 ''T5'' False, example_task 4 ''T4'' False,
           example_task 3 ''T3'' False] 5 3))) = 2"
    using handleRealtimeInsert_merges_row [of "healthy_service 6 [example_task 6 ''T6'' False]" 6
        "example_task 6 ''T6'' False" "example_options 1 3"
        "example_state [example_task 5 ''T5'' False, example_task 4 ''T4'' False,
           example_task 3 ''T3'' False] 5 3"]
    by (simp add: healthy_service_def example_task_def example_options_def example_state_def
        js_trim_def)
  have hit: "matchesSearch (example_task 2 ''Fix Login Bug'' False) ''BUG''"
    by (simp add: matchesSearch_def field_includes_def toLowerCase_def lower_char_def
        example_task_def)
  have sel_hit: "select_by_id (healthy_service 2 [example_task 2 ''Fix Login Bug'' False]) 2
     = Some (example_task 2 ''Fix Login Bug'' False)"
    by (simp add: healthy_service_def example_task_def)
  have fresh: "\<not> list_ex (\<lambda>t. row_id t = row_id (example_task 2 title2 False))
      (tasks (example_state [example_task 1 ''Fix login bug'' False] 1 3))" for title2
    by (simp add: example_state_def example_task_def)
  have page_ok: "1 \<le> page (search_options needle Oldest 1 3)
      \<and> 0 \<le> optPageSize (search_options needle Oldest 1 3)
      \<and> sortOrder (search_options needle Oldest 1 3) = Oldest
      \<and> completionFilter (search_options needle Oldest 1 3) = FilterAll
      \<and> searchTerm (search_options needle Oldest 1 3) = needle
      \<and> optPageSize (search_options needle Oldest 1 3) = 3
      \<and> page (search_options needle Oldest 1 3) = 1
      \<and> 0 < pageSize (pagination (example_state [example_task 1 ''Fix login bug'' False] 1 3))
      \<and> tasks (example_state [example_task 1 ''Fix login bug'' False] 1 3)
          = [example_task 1 ''Fix login bug'' False]" for needle
    by (simp add: search_options_def example_state_def)
  have folded: "tasks (handleRealtimeInsert (search_options ''BUG'' Oldest 1 3)
        (healthy_service 2 [example_task 2 ''Fix Login Bug'' False]) 2
        (example_state [example_task 1 ''Fix login bug'' False] 1 3))
     = [example_task 1 ''Fix login bug'' False, example_task 2 ''Fix Login Bug'' False]"
    using handleRealtimeInsert_merges_row [OF sel_hit, of "search_options ''BUG'' Oldest 1 3"
        "example_state [example_task 1 ''Fix login bug'' False] 1 3"]
      hit [unfolded matchesSearch_iff] fresh [of "''Fix Login Bug''"] page_ok [of "''BUG''"]
    by simp
  have hit_latin: "matchesSearch (example_task 2 (''CAF'' @ [CHR 0xC9]) False)
      (''caf'' @ [CHR 0xE9])"
    by (simp add: matchesSearch_def field_includes_def toLowerCase_def lower_char_def
        example_task_def)
  have sel_latin: "select_by_id (healthy_service 2 [example_task 2 (''CAF'' @ [CHR 0xC9]) False]) 2
     = Some (example_task 2 (''CAF'' @ [CHR 0xC9]) False)"
    by (simp add: healthy_service_def example_task_def)
  have folded_latin: "tasks (handleRealtimeInsert
        (search_options (''caf'' @ [CHR 0xE9]) Oldest 1 3)
        (healthy_service 2 [example_task 2 (''CAF'' @ [CHR 0xC9]) False]) 2
        (example_state [example_task 1 ''Fix login bug'' False] 1 3))
     = [example_task 1 ''Fix login bug'' False, example_task 2 (''CAF'' @ [CHR 0xC9]) False]"
    using handleRealtimeInsert_merges_row [OF sel_latin,
        of "search_options (''caf'' @ [CHR 0xE9]) Oldest 1 3"
        "example_state [example_task 1 ''Fix login bug'' False] 1 3"]
      hit_latin [unfolded matchesSearch_iff] fresh [of "''CAF'' @ [CHR 0xC9]"]
      page_ok [of "''caf'' @ [CHR 0xE9]"]
    by simp
  have blank: "js_trim [CHR 0xA0, CHR '' '', CHR 0x09] = []"
    by (simp add: js_trim_def is_whitespace_def)
  have unfiltered: "tasks (handleRealtimeInsert
        (search_options [CHR 0xA0, CHR '' '', CHR 0x09] Oldest 1 3)
        (healthy_service 2 [example_task 2 ''Release notes'' False]) 2
        (example_state [example_task 1 ''Fix login bug'' False] 1 3))
     = [example_task 1 ''Fix login bug'' False, example_task 2 ''Release notes'' False]"
    using handleRealtimeInsert_merges_row [OF sel,
        of "search_options [CHR 0xA0, CHR '' '', CHR 0x09] Oldest 1 3"
        "example_state [example_task 1 ''Fix login bug'' False] 1 3"]
      blank fresh [of "''Release notes''"] page_ok [of "[CHR 0xA0, CHR '' '', CHR 0x09]"]
    by simp
  show ?thesis
    using discarded inserted sel folded folded_latin blank unfiltered
    by (simp add: healthy_service_def example_task_def)
qed

section \<open>The pagination invariant\<close>

text \<open>
  What holds: a fetch whose count is not negative and whose page is no longer than the
  page size establishes the invariant; an insert notification preserves it; update
  and delete notifications preserve it as long as the count stays positive.
\<close>

lemma spec_totalPages_positive:
  assumes "0 < psize" and "0 < n"
  shows "spec_totalPages n psize = math_ceil_div n psize"
proof -
  have "0 < real_of_int n / real_of_int psize" using assms by simp
  then have "1 \<le> \<lceil>real_of_int n / real_of_int psize\<rceil>" by linarith
  then show ?thesis using assms by (simp add: spec_totalPages_def math_ceil_div_ceiling)
qed

lemma length_insert_updater:
  assumes "int (length prevTasks) \<le> optPageSize opts" and "1 \<le> page opts"
  shows "int (length (insert_updater opts newTask prevTasks)) \<le> optPageSize opts"
proof -
  have nn: "0 \<le> optPageSize opts" using assms(1) by linarith
  then have "0 \<le> (page opts - 1) * optPageSize opts" using assms(2) by simp
  then show ?thesis using assms nn
    by (auto simp: insert_updater_def Let_def js_slice_window)
qed

lemma fetchTasks_establishes_invariant:
  assumes "count_query svc (query_filters opts) = Inr cnt"
    and "0 \<le> or_zero cnt" and "0 < optPageSize opts"
    and "fetchTasks opts svc st = (st', reqs)"
    and "\<exists>dq data. DataQuery dq \<in> set reqs \<and> data_query svc dq = Inr (Some data)
           \<and> int (length data) \<le> optPageSize opts"
  shows "pagination_invariant st'"
proof -
  have tp: "or_one (math_ceil_div (or_zero cnt) (optPageSize opts))
          = spec_totalPages (or_zero cnt) (optPageSize opts)"
  proof (cases "or_zero cnt = 0")
    case True
    then show ?thesis by (simp add: or_one_def math_ceil_div_def spec_totalPages_def)
  next
    case False
    then have pos: "0 < or_zero cnt" using assms(2) by simp
    have "spec_totalPages (or_zero cnt) (optPageSize opts)
        = math_ceil_div (or_zero cnt) (optPageSize opts)"
      using spec_totalPages_positive [OF assms(3) pos] .
    moreover have "1 \<le> spec_totalPages (or_zero cnt) (optPageSize opts)"
      by (simp add: spec_totalPages_def)
    ultimately show ?thesis by (simp add: or_one_def)
  qed
  from assms(5) obtain dq data where
    dq: "DataQuery dq \<in> set reqs" "data_query svc dq = Inr (Some data)"
        "int (length data) \<le> optPageSize opts" by blast
  from assms(1,4) dq show ?thesis
    by (auto simp: fetchTasks_def Let_def pagination_invariant_def tp
        split: sum.splits option.splits)
qed

lemma handleRealtimeInsert_preserves_invariant:
  assumes "pagination_invariant st" and "pageSize (pagination st) = optPageSize opts"
    and "0 < optPageSize opts" and "1 \<le> page opts" and "0 \<le> totalCount (pagination st)"
  shows "pagination_invariant (handleRealtimeInsert opts svc new_id st)"
proof -
  have len: "int (length (insert_updater opts newTask (tasks st))) \<le> optPageSize opts"
    for newTask
    using length_insert_updater assms by (simp add: pagination_invariant_def)
  have tp: "math_ceil_div (totalCount (pagination st) + 1) (optPageSize opts)
          = spec_totalPages (totalCount (pagination st) + 1) (optPageSize opts)"
    using spec_totalPages_positive [of "optPageSize opts" "totalCount (pagination st) + 1"] assms
    by simp
  show ?thesis
    using assms(1,2) len tp
    by (auto simp: handleRealtimeInsert_def pagination_invariant_def split: option.splits)
qed

lemma decrement_count_keeps_invariant:
  assumes "0 < pageSize p" and "2 \<le> totalCount p"
  shows "totalPages (decrement_count p)
       = spec_totalPages (totalCount (decrement_count p)) (pageSize (decrement_count p))"
  using spec_totalPages_positive [of "pageSize p" "totalCount p - 1"] assms
  by (simp add: decrement_count_def)

lemma handleRealtimeDelete_preserves_invariant:
  assumes "pagination_invariant st" and "0 < pageSize (pagination st)"
    and "2 \<le> totalCount (pagination st)"
  shows "pagination_invariant (handleRealtimeDelete deletedTaskId st)"
proof -
  have "int (length (filter (\<lambda>task. row_id task \<noteq> Some deletedTaskId) (tasks st)))
      \<le> int (length (tasks st))"
    by simp
  also have "\<dots> \<le> pageSize (pagination st)"
    using assms(1) by (simp add: pagination_invariant_def)
  finally have "int (length (filter (\<lambda>task. row_id task \<noteq> Some deletedTaskId) (tasks st)))
      \<le> pageSize (pagination st)" .
  moreover have "pageSize (decrement_count (pagination st)) = pageSize (pagination st)"
    by (simp add: decrement_count_def)
  ultimately show ?thesis
    using decrement_count_keeps_invariant [OF assms(2,3)]
    by (simp add: handleRealtimeDelete_def pagination_invariant_def)
qed

lemma handleRealtimeUpdate_preserves_invariant:
  assumes "pagination_invariant st" and "0 < pageSize (pagination st)"
    and "2 \<le> totalCount (pagination st)"
  shows "pagination_invariant (handleRealtimeUpdate opts svc taskId st)"
proof -
  have "int (length (filter (\<lambda>task. row_id task \<noteq> Some taskId) (tasks st)))
      \<le> int (length (tasks st))"
    by simp
  also have "\<dots> \<le> pageSize (pagination st)"
    using assms(1) by (simp add: pagination_invariant_def)
  finally have len: "int (length (filter (\<lambda>task. row_id task \<noteq> Some taskId) (tasks st)))
      \<le> pageSize (pagination st)" .
  have ps: "pageSize (decrement_count (pagination st)) = pageSize (pagination st)"
    by (simp add: decrement_count_def)
  show ?thesis
    using assms(1) len ps decrement_count_keeps_invariant [OF assms(2,3)]
    by (auto simp: handleRealtimeUpdate_def Let_def pagination_invariant_def
        split: option.splits)
qed

text \<open>
  C3. The invariant does not survive a count that reaches zero. A fetch that finds one
  task establishes it; the delete notification for that task leaves no task, a count
  of 0 and a page count of 0, where the data model asks for the minimum 1 and where
  \<^const>\<open>fetchTasks\<close> itself stores 1 for a count of 0.
\<close>

theorem delete_notification_leaves_zero_pages:
  "pagination_invariant (fst (fetchTasks (example_options 1 10)
      (healthy_service 1 [example_task 1 ''one'' False]) (initial_state (example_options 1 10))))
   \<and> tasks (handleRealtimeDelete 1 (fst (fetchTasks (example_options 1 10)
      (healthy_service 1 [example_task 1 ''one'' False])
      (initial_state (example_options 1 10))))) = []
   \<and> totalCount (pagination (handleRealtimeDelete 1 (fst (fetchTasks (example_options 1 10)
      (healthy_service 1 [example_task 1 ''one'' False])
      (initial_state (example_options 1 10)))))) = 0
   \<and> totalPages (pagination (handleRealtimeDelete 1 (fst (fetchTasks (example_options 1 10)
      (healthy_service 1 [example_task 1 ''one'' False])
      (initial_state (example_options 1 10)))))) = 0
   \<and> spec_totalPages 0 10 = 1
   \<and> \<not> pagination_invariant (handleRealtimeDelete 1 (fst (fetchTasks (example_options 1 10)
      (healthy_service 1 [example_task 1 ''one'' False])
      (initial_state (example_options 1 10)))))
   \<and> totalPages (pagination (fst (fetchTasks (example_options 1 10) (healthy_service 0 [])
      (initial_state (example_options 1 10))))) = 1"
  by (simp add: fetchTasks_def Let_def healthy_service_def example_options_def
      initial_state_def example_task_def query_filters_def js_trim_def or_zero_def or_one_def
      math_ceil_div_def handleRealtimeDelete_def decrement_count_def pagination_invariant_def
      spec_totalPages_def)

section \<open>Duplicate insert notifications\<close>

text \<open>
  A row whose id is a non-zero number already in the cache leaves the list as it is.
\<close>

lemma insert_updater_duplicate:
  assumes "row_id newTask = Some i" and "i \<noteq> 0"
    and "list_ex (\<lambda>t. row_id t = Some i) prevTasks"
  shows "insert_updater opts newTask prevTasks = prevTasks"
  using assms by (simp add: insert_updater_def truthy_id_def)

text \<open>
  For such a row that passes the active filters, the task list is left unchanged, yet
  \<open>totalCount\<close> grows by one and \<open>totalPages\<close> is recomputed from the new count.
\<close>

lemma nonzero_duplicate_inflates_count:
  assumes row: "select_by_id svc new_id = Some newTask"
    and active: "\<not> (completionFilter opts = FilterActive \<and> isCompleted newTask = Some True)"
    and completed:
      "\<not> (completionFilter opts = FilterCompleted \<and> isCompleted newTask \<noteq> Some True)"
    and search: "js_trim (searchTerm opts) = [] \<or> matchesSearch newTask (searchTerm opts)"
    and rid: "row_id newTask = Some i" and nonzero: "i \<noteq> 0"
    and present: "list_ex (\<lambda>t. row_id t = Some i) (tasks st)"
    and psize: "0 < pageSize (pagination st)"
  shows "tasks (handleRealtimeInsert opts svc new_id st) = tasks st
       \<and> totalCount (pagination (handleRealtimeInsert opts svc new_id st)) =
           totalCount (pagination st) + 1
       \<and> totalPages (pagination (handleRealtimeInsert opts svc new_id st)) =
           \<lceil>real_of_int (totalCount (pagination st) + 1)
              / real_of_int (pageSize (pagination st))\<rceil>"
proof -
  have "handleRealtimeInsert opts svc new_id st =
      st\<lparr> tasks := insert_updater opts newTask (tasks st),
          pagination := (pagination st)
            \<lparr> totalCount := totalCount (pagination st) + 1,
              totalPages := math_ceil_div (totalCount (pagination st) + 1)
                              (pageSize (pagination st)) \<rparr> \<rparr>"
    using row active completed search by (auto simp: handleRealtimeInsert_def)
  then show ?thesis
    using insert_updater_duplicate [OF rid nonzero present, of opts] psize
    by (simp add: math_ceil_div_ceiling del: of_int_add)
qed

text \<open>
  \<open>[T5, T4, T3]\<close> with six tasks in total and a second notification for \<open>T5\<close>: the
  list is the same, the count is seven and there are three pages.
\<close>

lemma nonzero_duplicate_of_T5:
  "select_by_id (healthy_service 5 [example_task 5 ''T5'' False]) 5
     = Some (example_task 5 ''T5'' False)
   \<and> list_ex (\<lambda>t. row_id t = Some 5)
       (tasks (example_state [example_task 5 ''T5'' False, example_task 4 ''T4'' False,
          example_task 3 ''T3'' False] 6 3))
   \<and> tasks (handleRealtimeInsert (example_options 1 3)
        (healthy_service 5 [example_task 5 ''T5'' False]) 5
        (example_state [example_task 5 ''T5'' False, example_task 4 ''T4'' False,
           example_task 3 ''T3'' False] 6 3))
     = [example_task 5 ''T5'' False, example_task 4 ''T4'' False, example_task 3 ''T3'' False]
   \<and> totalCount (pagination (handleRealtimeInsert (example_options 1 3)
        (healthy_service 5 [example_task 5 ''T5'' False]) 5
        (example_state [example_task 5 ''T5'' False, example_task 4 ''T4'' False,
           example_task 3 ''T3'' False] 6 3))) = 7
   \<and> totalPages (pagination (handleRealtimeInsert (example_options 1 3)
        (healthy_service 5 [example_task 5 ''T5'' False]) 5
        (example_state [example_task 5 ''T5'' False, example_task 4 ''T4'' False,
           example_task 3 ''T3'' False] 6 3))) = 3"
  using nonzero_duplicate_inflates_count [of "healthy_service 5 [example_task 5 ''T5'' False]" 5
      "example_task 5 ''T5'' False" "example_options 1 3" 5
      "example_state [example_task 5 ''T5'' False, example_task 4 ''T4'' False,
           example_task 3 ''T3'' False] 6 3"]
  by (simp add: healthy_service_def example_task_def example_options_def example_state_def
      js_trim_def)

text \<open>
  C8. The check \<^verbatim>\<open>newTask.id && prevTasks.some(...)\<close> is skipped for the id 0,
  which is falsy: a notification for a task with id 0 that the cache already holds
  adds a second entry with that id. For the id 1 the same run leaves one entry.
\<close>

theorem insert_notification_duplicates_id_zero:
  "list_ex (\<lambda>t. row_id t = Some 0) (tasks (example_state [example_task 0 ''zero'' False] 1 3))
   \<and> select_by_id (healthy_service 1 [example_task 0 ''zero'' False]) 0
       = Some (example_task 0 ''zero'' False)
   \<and> tasks (handleRealtimeInsert (example_options 1 3)
        (healthy_service 1 [example_task 0 ''zero'' False]) 0
        (example_state [example_task 0 ''zero'' False] 1 3))
     = [example_task 0 ''zero'' False, example_task 0 ''zero'' False]
   \<and> length (filter (\<lambda>t. row_id t = Some 0) (tasks (handleRealtimeInsert (example_options 1 3)
        (healthy_service 1 [example_task 0 ''zero'' False]) 0
        (example_state [example_task 0 ''zero'' False] 1 3)))) = 2
   \<and> tasks (handleRealtimeInsert (example_options 1 3)
        (healthy_service 1 [example_task 1 ''one'' False]) 1
        (example_state [example_task 1 ''one'' False] 1 3))
     = [example_task 1 ''one'' False]"
  by (simp add: handleRealtimeInsert_def insert_updater_def truthy_id_def Let_def js_slice_def
      healthy_service_def example_options_def example_state_def example_task_def js_trim_def)

text \<open>
  C10. For the id 0 the first half of the claim breaks: the cache \<open>[T5, T0]\<close> with two
  tasks in total receives an insert notification for \<open>T0\<close>, a row that passes the
  filters and whose id is in the cache. The list is not left unchanged, \<open>T0\<close> is put
  at the head a second time; the count grows to three as the claim says.
\<close>

theorem duplicate_insert_of_id_zero_changes_list:
  "list_ex (\<lambda>t. row_id t = Some 0)
     (tasks (example_state [example_task 5 ''five'' False, example_task 0 ''zero'' False] 2 3))
   \<and> select_by_id (healthy_service 2 [example_task 0 ''zero'' False]) 0
       = Some (example_task 0 ''zero'' False)
   \<and> tasks (handleRealtimeInsert (example_options 1 3)
        (healthy_service 2 [example_task 0 ''zero'' False]) 0
        (example_state [example_task 5 ''five'' False, example_task 0 ''zero'' False] 2 3))
     = [example_task 0 ''zero'' False, example_task 5 ''five'' False,
        example_task 0 ''zero'' False]
   \<and> tasks (handleRealtimeInsert (example_options 1 3)
        (healthy_service 2 [example_task 0 ''zero'' False]) 0
        (example_state [example_task 5 ''five'' False, example_task 0 ''zero'' False] 2 3))
     \<noteq> tasks (example_state [example_task 5 ''five'' False, example_task 0 ''zero'' False] 2 3)
   \<and> totalCount (pagination (handleRealtimeInsert (example_options 1 3)
        (healthy_service 2 [example_task 0 ''zero'' False]) 0
        (example_state [example_task 5 ''five'' False, example_task 0 ''zero'' False] 2 3))) = 3
   \<and> totalPages (pagination (handleRealtimeInsert (example_options 1 3)
        (healthy_service 2 [example_task 0 ''zero'' False]) 0
        (example_state [example_task 5 ''five'' False, example_task 0 ''zero'' False] 2 3))) = 1"
  by (simp add: handleRealtimeInsert_def insert_updater_def truthy_id_def Let_def js_slice_def
      healthy_service_def example_options_def example_state_def example_task_def js_trim_def
      math_ceil_div_def)

end
